theory Spec2Isabelle
  imports Complex_Main
begin

section \<open>Life Timer: the timer and reward state of \<open>TimerContext.tsx\<close>\<close>

text \<open>
  The development embeds the state-carrying part of the React provider
  \<open>TimerProvider\<close> (\<open>src/context/TimerContext.tsx\<close>), the variant of its catch-up
  routine called \<open>calculateElapsedTime\<close>, and the submit handler of the "new quest" page.

  Conventions of the embedding:
  \<^item> a TypeScript \<open>number\<close> is an exact rational (\<^typ>\<open>rat\<close>); the rounding of IEEE
    doubles is not modelled. Timestamps (\<open>Date.now()\<close>) are integers of milliseconds;
  \<^item> \<open>Date.now()\<close> and \<open>crypto.randomUUID()\<close> are read from the environment, so the
    value they return is an argument of the function that calls them;
  \<^item> \<open>setState(prev => ...)\<close> replaces the \<open>state\<close> component of the provider by the
    result of the updater on the current state;
  \<^item> \<open>triggerPlayEndedNotification()\<close> raises the in-app flag
    \<open>showPlayEndedNotification\<close>; the browser notification and the beep are external;
  \<^item> \<open>alert(...)\<close> and \<open>setError(...)\<close> are returned as values.
\<close>

subsection \<open>Types (\<open>@/types\<close>)\<close>

datatype Mode = WORK | PLAY | NOTHING

record Quest =
  quest_id :: string
  quest_title :: string
  rewardMinutes :: rat

record InventoryItem =
  item_id :: string
  questId :: string
  item_title :: string
  minutes :: rat
  createdAt :: int

record AppState =
  workElapsedSeconds :: rat
  playBalanceSeconds :: rat
  mode :: Mode
  lastTickTimestamp :: int
  quests :: "Quest list"
  inventory :: "InventoryItem list"

definition PLAY_GAIN_RATE :: rat where
  "PLAY_GAIN_RATE = 1 / 2"

definition PENALTY_SECONDS :: rat where
  "PENALTY_SECONDS = 300"

text \<open>\<open>Math.floor\<close> returns a number again.\<close>

definition Math_floor :: "rat \<Rightarrow> rat" where
  "Math_floor x = of_int \<lfloor>x\<rfloor>"

subsection \<open>The provider\<close>

text \<open>
  \<open>user\<close> is the uid of the signed-in user (\<open>None\<close> for \<open>null\<close>); \<open>isInitialLoad\<close> is
  the ref that blocks saving and catching up while the first snapshot is loading.
\<close>

record TimerProvider =
  state :: AppState
  isHydrated :: bool
  user :: "string option"
  isInitialLoad :: bool
  showPlayEndedNotification :: bool

definition setState :: "(AppState \<Rightarrow> AppState) \<Rightarrow> TimerProvider \<Rightarrow> TimerProvider" where
  "setState f p = p\<lparr>state := f (state p)\<rparr>"

definition triggerPlayEndedNotification :: "TimerProvider \<Rightarrow> TimerProvider" where
  "triggerPlayEndedNotification p = p\<lparr>showPlayEndedNotification := True\<rparr>"

text \<open>\<open>Math.floor(elapsedMs / 1000)\<close> with \<open>elapsedMs = now - lastTickTimestamp\<close>.\<close>

definition elapsedSeconds :: "int \<Rightarrow> AppState \<Rightarrow> rat" where
  "elapsedSeconds now s =
     (let elapsedMs = now - lastTickTimestamp s
      in Math_floor (of_int elapsedMs / 1000))"

subsection \<open>Main timer effect of \<open>TimerContext.tsx\<close>\<close>

text \<open>
  The catch-up at the start of the effect. It does nothing unless the provider is
  hydrated and a user is signed in, and it runs the updater only when more than one whole
  second has passed and the initial load is over. The effect reads \<open>lastTickTimestamp\<close>
  from the rendered state and the updater works on \<open>prev\<close>; updates are applied one after
  the other here, so both are the current state.
\<close>

definition catchUp :: "int \<Rightarrow> TimerProvider \<Rightarrow> TimerProvider" where
  "catchUp now p =
     (if \<not> isHydrated p \<or> user p = None then p
      else if elapsedSeconds now (state p) > 1 \<and> \<not> isInitialLoad p then
        (let prev = state p;
             e = elapsedSeconds now (state p);
             newWorkElapsed =
               (if mode prev = WORK then workElapsedSeconds prev + e
                else workElapsedSeconds prev);
             newPlayBalance =
               (if mode prev = WORK
                  then playBalanceSeconds prev + Math_floor (e * PLAY_GAIN_RATE)
                else if mode prev = PLAY
                  then max 0 (playBalanceSeconds prev - e)
                else playBalanceSeconds prev);
             ended = (mode prev = PLAY \<and> newPlayBalance = 0);
             newMode = (if ended then NOTHING else mode prev);
             p' = (if ended then triggerPlayEndedNotification p else p)
         in p'\<lparr>state := prev\<lparr>workElapsedSeconds := newWorkElapsed,
                               playBalanceSeconds := newPlayBalance,
                               mode := newMode,
                               lastTickTimestamp := now\<rparr>\<rparr>)
      else p)"

text \<open>
  The callback of the one-second interval. The interval exists only when the effect got
  past its guard; the callback itself assumes that one second has passed.
\<close>

definition tick :: "int \<Rightarrow> TimerProvider \<Rightarrow> TimerProvider" where
  "tick currentTime p =
     (if \<not> isHydrated p \<or> user p = None then p
      else
        (let prev = state p;
             newWorkElapsed =
               (if mode prev = WORK then workElapsedSeconds prev + 1
                else workElapsedSeconds prev);
             newPlayBalance =
               (if mode prev = WORK then playBalanceSeconds prev + PLAY_GAIN_RATE
                else if mode prev = PLAY then max 0 (playBalanceSeconds prev - 1)
                else playBalanceSeconds prev);
             ended = (mode prev = PLAY \<and> newPlayBalance = 0);
             newMode = (if ended then NOTHING else mode prev);
             p' = (if ended then triggerPlayEndedNotification p else p)
         in p'\<lparr>state := prev\<lparr>workElapsedSeconds := newWorkElapsed,
                               playBalanceSeconds := newPlayBalance,
                               mode := newMode,
                               lastTickTimestamp := currentTime\<rparr>\<rparr>))"

subsection \<open>The variant \<open>calculateElapsedTime\<close>\<close>

text \<open>
  Another revision of the provider recomputes the elapsed time in a callback of its own,
  run when the page becomes visible again. It returns early on a non-positive delta and
  multiplies by the gain rate without \<open>Math.floor\<close>.
\<close>

definition calculateElapsedTime :: "int \<Rightarrow> TimerProvider \<Rightarrow> TimerProvider" where
  "calculateElapsedTime now p =
     (if elapsedSeconds now (state p) \<le> 0 then p
      else
        (let prev = state p;
             e = elapsedSeconds now (state p);
             workElapsed =
               (if mode prev = WORK then workElapsedSeconds prev + e
                else workElapsedSeconds prev);
             playBalance =
               (if mode prev = WORK then playBalanceSeconds prev + e * PLAY_GAIN_RATE
                else if mode prev = PLAY then max 0 (playBalanceSeconds prev - e)
                else playBalanceSeconds prev);
             ended = (mode prev = PLAY \<and> playBalance = 0);
             mode' = (if ended then NOTHING else mode prev);
             p' = (if ended then triggerPlayEndedNotification p else p)
         in p'\<lparr>state := prev\<lparr>workElapsedSeconds := workElapsed,
                               playBalanceSeconds := playBalance,
                               mode := mode',
                               lastTickTimestamp := now\<rparr>\<rparr>))"

subsection \<open>Mode setter and penalty\<close>

datatype Alert = NoPlayBalance

text \<open>The first component is the alert shown to the user, if any.\<close>

definition setMode :: "Mode \<Rightarrow> int \<Rightarrow> TimerProvider \<Rightarrow> Alert option \<times> TimerProvider" where
  "setMode newMode now p =
     (if newMode = PLAY \<and> playBalanceSeconds (state p) \<le> 0 then (Some NoPlayBalance, p)
      else (None, setState (\<lambda>prev. prev\<lparr>mode := newMode, lastTickTimestamp := now\<rparr>) p))"

definition applyPenalty :: "TimerProvider \<Rightarrow> TimerProvider" where
  "applyPenalty =
     setState (\<lambda>prev.
       let newWorkElapsed = max 0 (workElapsedSeconds prev - PENALTY_SECONDS);
           playPenalty = Math_floor (PENALTY_SECONDS * PLAY_GAIN_RATE);
           newPlayBalance = max 0 (playBalanceSeconds prev - playPenalty)
       in prev\<lparr>workElapsedSeconds := newWorkElapsed,
                playBalanceSeconds := newPlayBalance\<rparr>)"

subsection \<open>Quests and inventory\<close>

definition addQuest :: "string \<Rightarrow> string \<Rightarrow> rat \<Rightarrow> TimerProvider \<Rightarrow> TimerProvider" where
  "addQuest uuid title reward =
     (let newQuest = \<lparr>quest_id = uuid, quest_title = title, rewardMinutes = reward\<rparr>
      in setState (\<lambda>prev. prev\<lparr>quests := quests prev @ [newQuest]\<rparr>))"

definition deleteQuest :: "string \<Rightarrow> TimerProvider \<Rightarrow> TimerProvider" where
  "deleteQuest qid =
     setState (\<lambda>prev. prev\<lparr>quests := filter (\<lambda>q. quest_id q \<noteq> qid) (quests prev)\<rparr>)"

definition claimQuest :: "string \<Rightarrow> int \<Rightarrow> Quest \<Rightarrow> TimerProvider \<Rightarrow> TimerProvider" where
  "claimQuest uuid now quest =
     (let newItem = \<lparr>item_id = uuid, questId = quest_id quest,
                     item_title = quest_title quest, minutes = rewardMinutes quest,
                     createdAt = now\<rparr>
      in setState (\<lambda>prev. prev\<lparr>inventory := inventory prev @ [newItem]\<rparr>))"

definition useInventoryItems :: "string list \<Rightarrow> TimerProvider \<Rightarrow> TimerProvider" where
  "useInventoryItems ids =
     setState (\<lambda>prev.
       let selectedItems = filter (\<lambda>item. item_id item \<in> set ids) (inventory prev);
           totalMinutes = foldl (\<lambda>sum item. sum + minutes item) 0 selectedItems;
           totalSeconds = totalMinutes * 60
       in prev\<lparr>playBalanceSeconds := playBalanceSeconds prev + totalSeconds,
                inventory := filter (\<lambda>item. item_id item \<notin> set ids) (inventory prev)\<rparr>)"

subsection \<open>The "new quest" page\<close>

text \<open>
  \<open>handleSubmit\<close> validates the form and only then calls \<open>addQuest\<close>. The two built-ins
  it uses are arguments: \<open>trim\<close> for \<open>String.prototype.trim\<close> and \<open>parseInt10\<close> for
  \<open>parseInt(_, 10)\<close>, whose result is an integer or \<open>NaN\<close> (\<open>None\<close>). The last component
  of the result tells whether the router moved on to the quest list.
\<close>

datatype FormError = TitleRequired | InvalidMinutes

record AddQuestPage =
  form_title :: string
  form_rewardMinutes :: string
  form_error :: "FormError option"

definition handleSubmit ::
  "(string \<Rightarrow> string) \<Rightarrow> (string \<Rightarrow> int option) \<Rightarrow> string \<Rightarrow>
   AddQuestPage \<Rightarrow> TimerProvider \<Rightarrow> AddQuestPage \<times> TimerProvider \<times> bool" where
  "handleSubmit trim parseInt10 uuid page p =
     (let page0 = page\<lparr>form_error := None\<rparr>
      in if trim (form_title page) = [] then
           (page0\<lparr>form_error := Some TitleRequired\<rparr>, p, False)
         else
           (case parseInt10 (form_rewardMinutes page) of
              None \<Rightarrow> (page0\<lparr>form_error := Some InvalidMinutes\<rparr>, p, False)
            | Some m \<Rightarrow>
                if m \<le> 0 then (page0\<lparr>form_error := Some InvalidMinutes\<rparr>, p, False)
                else (page0, addQuest uuid (trim (form_title page)) (of_int m) p, True)))"

subsection \<open>Sequences of operations\<close>

text \<open>
  The operations that move the balance: the two forms of catch-up, the one-second tick,
  the penalty and the redemption of inventory items.
\<close>

datatype Operation =
  CatchUp int
  | CalculateElapsedTime int
  | Tick int
  | ApplyPenalty
  | UseInventoryItems "string list"

fun apply_operation :: "Operation \<Rightarrow> TimerProvider \<Rightarrow> TimerProvider" where
  "apply_operation (CatchUp now) p = catchUp now p"
| "apply_operation (CalculateElapsedTime now) p = calculateElapsedTime now p"
| "apply_operation (Tick currentTime) p = tick currentTime p"
| "apply_operation ApplyPenalty p = applyPenalty p"
| "apply_operation (UseInventoryItems ids) p = useInventoryItems ids p"

fun run :: "Operation list \<Rightarrow> TimerProvider \<Rightarrow> TimerProvider" where
  "run [] p = p"
| "run (op # ops) p = run ops (apply_operation op p)"

text \<open>
  What the operations keep true: the balance is not negative and no inventory item
  carries a negative number of minutes.
\<close>

definition balanceInvariant :: "TimerProvider \<Rightarrow> bool" where
  "balanceInvariant p \<longleftrightarrow>
     0 \<le> playBalanceSeconds (state p)
     \<and> (\<forall>item \<in> set (inventory (state p)). 0 \<le> minutes item)"

subsection \<open>Example states\<close>

text \<open>
  A provider in the state in which the timer runs (hydrated, signed in, initial load
  over, no notification shown), a snapshot without quests or inventory, and an inventory
  item with a given id and number of minutes.
\<close>

definition activeProvider :: "AppState \<Rightarrow> TimerProvider" where
  "activeProvider s =
     \<lparr>state = s, isHydrated = True, user = Some ''uid-1'', isInitialLoad = False,
      showPlayEndedNotification = False\<rparr>"

definition snapshot :: "Mode \<Rightarrow> rat \<Rightarrow> rat \<Rightarrow> int \<Rightarrow> AppState" where
  "snapshot m w b t =
     \<lparr>workElapsedSeconds = w, playBalanceSeconds = b, mode = m, lastTickTimestamp = t,
      quests = [], inventory = []\<rparr>"

definition item :: "string \<Rightarrow> rat \<Rightarrow> InventoryItem" where
  "item i m =
     \<lparr>item_id = i, questId = ''quest-1'', item_title = ''Read a chapter'', minutes = m,
      createdAt = 0\<rparr>"

section \<open>Basic facts\<close>

lemma Math_floor_of_int [simp]: "Math_floor (of_int n) = of_int n"
  by (simp add: Math_floor_def)

lemma elapsedSeconds_div:
  "elapsedSeconds now s = of_int ((now - lastTickTimestamp s) div 1000)"
proof -
  have "\<lfloor>(of_int (now - lastTickTimestamp s) :: rat) / of_int 1000\<rfloor>
        = (now - lastTickTimestamp s) div 1000"
    by (rule floor_divide_of_int_eq)
  then show ?thesis
    by (simp add: elapsedSeconds_def Math_floor_def)
qed

lemma playPenalty_150: "Math_floor (PENALTY_SECONDS * PLAY_GAIN_RATE) = 150"
  by (simp add: Math_floor_def PENALTY_SECONDS_def PLAY_GAIN_RATE_def)

lemma elapsedSeconds_now [simp]: "lastTickTimestamp s = now \<Longrightarrow> elapsedSeconds now s = 0"
  by (simp add: elapsedSeconds_div)

lemma catchUp_fixed: "elapsedSeconds now (state p) \<le> 1 \<Longrightarrow> catchUp now p = p"
  by (simp add: catchUp_def)

lemma calculateElapsedTime_fixed:
  "elapsedSeconds now (state p) \<le> 0 \<Longrightarrow> calculateElapsedTime now p = p"
  by (simp add: calculateElapsedTime_def)

lemma catchUp_lastTick:
  "catchUp now p \<noteq> p \<Longrightarrow> lastTickTimestamp (state (catchUp now p)) = now"
  by (auto simp add: catchUp_def Let_def split: if_splits)

lemma calculateElapsedTime_lastTick:
  "calculateElapsedTime now p \<noteq> p \<Longrightarrow>
   lastTickTimestamp (state (calculateElapsedTime now p)) = now"
  by (auto simp add: calculateElapsedTime_def Let_def split: if_splits)

lemma catchUp_idem: "catchUp now (catchUp now p) = catchUp now p"
proof (cases "catchUp now p = p")
  case True
  then show ?thesis by simp
next
  case False
  then have "elapsedSeconds now (state (catchUp now p)) = 0"
    by (simp add: catchUp_lastTick)
  then show ?thesis by (simp add: catchUp_fixed)
qed

lemma calculateElapsedTime_idem:
  "calculateElapsedTime now (calculateElapsedTime now p) = calculateElapsedTime now p"
proof (cases "calculateElapsedTime now p = p")
  case True
  then show ?thesis by simp
next
  case False
  then have "elapsedSeconds now (state (calculateElapsedTime now p)) = 0"
    by (simp add: calculateElapsedTime_lastTick)
  then show ?thesis by (simp add: calculateElapsedTime_fixed)
qed

section \<open>Reconciliation: no-op and idempotence\<close>

text \<open>
  C4. When the whole seconds elapsed since \<open>lastTickTimestamp\<close> are zero or negative,
  the catch-up returns the provider as it is, every field unchanged; and catching up twice
  at the same instant gives what catching up once gives. Both hold for the catch-up of the
  timer effect and for \<open>calculateElapsedTime\<close>.
\<close>

theorem reconcile_noop_and_idempotent:
  "(elapsedSeconds now (state p) \<le> 0 \<longrightarrow>
      catchUp now p = p \<and> calculateElapsedTime now p = p)
   \<and> catchUp now (catchUp now p) = catchUp now p
   \<and> calculateElapsedTime now (calculateElapsedTime now p) = calculateElapsedTime now p"
  by (simp add: catchUp_idem calculateElapsedTime_idem catchUp_fixed
      calculateElapsedTime_fixed)

theorem reconcile_noop_and_idempotent_witness:
  "elapsedSeconds 4000 (state (activeProvider (snapshot WORK 7 3 5000))) \<le> 0
   \<and> catchUp 4000 (activeProvider (snapshot WORK 7 3 5000))
       = activeProvider (snapshot WORK 7 3 5000)
   \<and> catchUp 9000 (catchUp 9000 (activeProvider (snapshot WORK 7 3 5000)))
       = activeProvider (snapshot WORK 11 5 9000)"
  using reconcile_noop_and_idempotent [of 4000 "activeProvider (snapshot WORK 7 3 5000)"]
    reconcile_noop_and_idempotent [of 9000 "activeProvider (snapshot WORK 7 3 5000)"]
  by (simp add: elapsedSeconds_div activeProvider_def snapshot_def catchUp_def Let_def
      Math_floor_def PLAY_GAIN_RATE_def)

section \<open>Mode setter\<close>

text \<open>
  C6. \<open>setMode\<close> with target \<open>PLAY\<close> and a balance of zero or less is rejected: the
  alert is raised and the provider, with its quests and inventory, is returned unchanged.
  In every other case the mode becomes the target and \<open>lastTickTimestamp\<close> the current
  time, and nothing else changes (\<open>workElapsedSeconds\<close>, \<open>playBalanceSeconds\<close>,
  \<open>quests\<close> and \<open>inventory\<close> are those of the old state).
\<close>

theorem setMode_play_needs_balance:
  "(newMode = PLAY \<and> playBalanceSeconds (state p) \<le> 0 \<longrightarrow>
      setMode newMode now p = (Some NoPlayBalance, p))
   \<and> (\<not> (newMode = PLAY \<and> playBalanceSeconds (state p) \<le> 0) \<longrightarrow>
      setMode newMode now p =
        (None, p\<lparr>state := (state p)\<lparr>mode := newMode, lastTickTimestamp := now\<rparr>\<rparr>))"
  by (simp add: setMode_def setState_def)

theorem setMode_play_needs_balance_witness:
  "playBalanceSeconds (state (activeProvider (snapshot NOTHING 20 0 1000))) \<le> 0
   \<and> setMode PLAY 2000 (activeProvider (snapshot NOTHING 20 0 1000))
       = (Some NoPlayBalance, activeProvider (snapshot NOTHING 20 0 1000))
   \<and> setMode WORK 2000 (activeProvider (snapshot NOTHING 20 0 1000))
       = (None, activeProvider (snapshot WORK 20 0 2000))
   \<and> setMode PLAY 2000 (activeProvider (snapshot NOTHING 20 1 1000))
       = (None, activeProvider (snapshot PLAY 20 1 2000))"
  using setMode_play_needs_balance [of PLAY "activeProvider (snapshot NOTHING 20 0 1000)" 2000]
    setMode_play_needs_balance [of WORK "activeProvider (snapshot NOTHING 20 0 1000)" 2000]
    setMode_play_needs_balance [of PLAY "activeProvider (snapshot NOTHING 20 1 1000)" 2000]
  by (simp add: activeProvider_def snapshot_def)

section \<open>Penalty\<close>

text \<open>
  C7. \<open>applyPenalty\<close> has no precondition: in one update it sets
  \<open>workElapsedSeconds\<close> to \<open>max 0 (workElapsedSeconds - 300)\<close> and \<open>playBalanceSeconds\<close> to
  \<open>max 0 (playBalanceSeconds - 150)\<close>. Each new value depends on its own old value only,
  so one floor never changes what is subtracted from the other field. From work 100 and
  balance 40 both become 0.
\<close>

theorem applyPenalty_floors:
  "applyPenalty p =
     p\<lparr>state := (state p)\<lparr>workElapsedSeconds := max 0 (workElapsedSeconds (state p) - 300),
                          playBalanceSeconds := max 0 (playBalanceSeconds (state p) - 150)\<rparr>\<rparr>
   \<and> workElapsedSeconds (state (applyPenalty
        (p\<lparr>state := (state p)\<lparr>workElapsedSeconds := 100, playBalanceSeconds := 40\<rparr>\<rparr>))) = 0
   \<and> playBalanceSeconds (state (applyPenalty
        (p\<lparr>state := (state p)\<lparr>workElapsedSeconds := 100, playBalanceSeconds := 40\<rparr>\<rparr>))) = 0"
  by (simp add: applyPenalty_def setState_def Math_floor_def PENALTY_SECONDS_def
      PLAY_GAIN_RATE_def Let_def)

section \<open>Redeeming inventory items\<close>

lemma foldl_minutes:
  "foldl (\<lambda>sum item. sum + minutes item) a xs = a + (\<Sum>item\<leftarrow>xs. minutes item)"
  by (induction xs arbitrary: a) simp_all

lemma useInventoryItems_state:
  "state (useInventoryItems ids p) =
     (state p)\<lparr>playBalanceSeconds := playBalanceSeconds (state p)
          + (\<Sum>item\<leftarrow>filter (\<lambda>item. item_id item \<in> set ids) (inventory (state p)).
               minutes item) * 60,
        inventory := filter (\<lambda>item. item_id item \<notin> set ids) (inventory (state p))\<rparr>"
  by (simp add: useInventoryItems_def setState_def foldl_minutes Let_def)

lemma useInventoryItems_eq:
  "useInventoryItems ids p = p\<lparr>state := state (useInventoryItems ids p)\<rparr>"
  by (simp add: useInventoryItems_def setState_def)

text \<open>Only the ids that occur in the inventory matter.\<close>

lemma useInventoryItems_cong:
  assumes "\<And>item. item \<in> set (inventory (state p)) \<Longrightarrow>
             (item_id item \<in> set ids) = (item_id item \<in> set ids')"
  shows "useInventoryItems ids p = useInventoryItems ids' p"
proof -
  have "filter (\<lambda>item. item_id item \<in> set ids) (inventory (state p))
        = filter (\<lambda>item. item_id item \<in> set ids') (inventory (state p))"
    by (rule filter_cong) (simp_all add: assms)
  moreover have "filter (\<lambda>item. item_id item \<notin> set ids) (inventory (state p))
        = filter (\<lambda>item. item_id item \<notin> set ids') (inventory (state p))"
    by (rule filter_cong) (simp_all add: assms)
  ultimately have "state (useInventoryItems ids p) = state (useInventoryItems ids' p)"
    by (simp add: useInventoryItems_state)
  then show ?thesis
    using useInventoryItems_eq [of ids p] useInventoryItems_eq [of ids' p] by simp
qed

lemma useInventoryItems_nil: "useInventoryItems [] p = p"
  by (simp add: useInventoryItems_def setState_def)

text \<open>
  C8. \<open>useInventoryItems\<close> adds to the balance exactly 60 times the minutes of the
  inventory items whose id is among the given ids, and keeps in the inventory exactly the
  items whose id is not among them. Ids that no inventory item carries change nothing,
  and the empty list of ids changes nothing at all. Redeeming two items of 10 and 15
  minutes from a balance of 0 gives a balance of 1500 and leaves neither item.
\<close>

theorem useInventoryItems_redeems:
  "playBalanceSeconds (state (useInventoryItems ids p)) =
     playBalanceSeconds (state p)
     + (\<Sum>item\<leftarrow>filter (\<lambda>item. item_id item \<in> set ids) (inventory (state p)).
          minutes item) * 60
   \<and> inventory (state (useInventoryItems ids p)) =
       filter (\<lambda>item. item_id item \<notin> set ids) (inventory (state p))
   \<and> (set extra \<inter> item_id ` set (inventory (state p)) = {} \<longrightarrow>
        useInventoryItems (ids @ extra) p = useInventoryItems ids p)
   \<and> useInventoryItems [] p = p
   \<and> state (useInventoryItems [item_id a, item_id b]
        (p\<lparr>state := (state p)\<lparr>playBalanceSeconds := 0,
              inventory := [a\<lparr>minutes := 10\<rparr>, b\<lparr>minutes := 15\<rparr>]\<rparr>\<rparr>))
       = (state p)\<lparr>playBalanceSeconds := 1500, inventory := []\<rparr>"
proof -
  have "useInventoryItems (ids @ extra) p = useInventoryItems ids p"
    if "set extra \<inter> item_id ` set (inventory (state p)) = {}"
    using that by (intro useInventoryItems_cong) auto
  then show ?thesis
    by (simp add: useInventoryItems_state useInventoryItems_nil)
qed

theorem useInventoryItems_redeems_witness:
  "set [''gone''] \<inter> item_id ` set (inventory (state (activeProvider
       ((snapshot NOTHING 0 0 0)
          \<lparr>inventory := [item ''a'' 10, item ''b'' 15, item ''c'' 30]\<rparr>)))) = {}
   \<and> useInventoryItems ([''a'', ''b''] @ [''gone''])
        (activeProvider ((snapshot NOTHING 0 0 0)
          \<lparr>inventory := [item ''a'' 10, item ''b'' 15, item ''c'' 30]\<rparr>))
       = activeProvider ((snapshot NOTHING 0 1500 0)\<lparr>inventory := [item ''c'' 30]\<rparr>)"
  using useInventoryItems_redeems [where ids = "[''a'', ''b'']"
      and p = "activeProvider ((snapshot NOTHING 0 0 0)
          \<lparr>inventory := [item ''a'' 10, item ''b'' 15, item ''c'' 30]\<rparr>)"
      and extra = "[''gone'']" and a = "item ''a'' 10" and b = "item ''b'' 15"]
  by (simp add: activeProvider_def snapshot_def item_def useInventoryItems_def setState_def
      Let_def)

text \<open>
  C10. Whether an id is selected is a membership test, so a list of ids with duplicates
  redeems what the list without them redeems: every inventory item with a selected id
  contributes its minutes once and leaves the inventory once. \<open>workElapsedSeconds\<close>,
  \<open>mode\<close> and \<open>quests\<close> stay as they are.
\<close>

theorem useInventoryItems_duplicate_ids:
  "useInventoryItems (remdups ids) p = useInventoryItems ids p
   \<and> useInventoryItems (i # i # ids) p = useInventoryItems (i # ids) p
   \<and> playBalanceSeconds (state (useInventoryItems ids p)) =
       playBalanceSeconds (state p)
       + (\<Sum>item\<leftarrow>inventory (state p).
            if item_id item \<in> set ids then minutes item else 0) * 60
   \<and> length (inventory (state (useInventoryItems ids p)))
       + length (filter (\<lambda>item. item_id item \<in> set ids) (inventory (state p)))
       = length (inventory (state p))
   \<and> workElapsedSeconds (state (useInventoryItems ids p)) = workElapsedSeconds (state p)
   \<and> mode (state (useInventoryItems ids p)) = mode (state p)
   \<and> quests (state (useInventoryItems ids p)) = quests (state p)"
proof -
  have a: "useInventoryItems (remdups ids) p = useInventoryItems ids p"
    by (rule useInventoryItems_cong) simp
  have b: "useInventoryItems (i # i # ids) p = useInventoryItems (i # ids) p"
    by (rule useInventoryItems_cong) simp
  have c: "(\<Sum>item\<leftarrow>filter (\<lambda>item. item_id item \<in> set ids) xs. minutes item)
         = (\<Sum>item\<leftarrow>xs. if item_id item \<in> set ids then minutes item else 0)" for xs
    by (induction xs) simp_all
  have d: "length (filter (\<lambda>item. item_id item \<notin> set ids) xs)
         + length (filter (\<lambda>item. item_id item \<in> set ids) xs) = length xs"
    for xs :: "InventoryItem list"
    by (induction xs) simp_all
  show ?thesis
    by (simp add: a b c d useInventoryItems_state)
qed

theorem useInventoryItems_duplicate_ids_witness:
  "useInventoryItems [''a'', ''a'', ''b'', ''a'']
        (activeProvider ((snapshot WORK 40 5 0)
          \<lparr>inventory := [item ''a'' 10, item ''b'' 15, item ''c'' 30]\<rparr>))
       = activeProvider ((snapshot WORK 40 1505 0)\<lparr>inventory := [item ''c'' 30]\<rparr>)"
  using useInventoryItems_duplicate_ids [where ids = "[''a'', ''a'', ''b'', ''a'']"
      and p = "activeProvider ((snapshot WORK 40 5 0)
          \<lparr>inventory := [item ''a'' 10, item ''b'' 15, item ''c'' 30]\<rparr>)"
      and i = "''a''"]
  by (simp add: activeProvider_def snapshot_def item_def useInventoryItems_def setState_def
      Let_def)

section \<open>The balance is never negative\<close>

lemma catchUp_invariant: "balanceInvariant p \<Longrightarrow> balanceInvariant (catchUp now p)"
  by (auto simp add: balanceInvariant_def catchUp_def Let_def triggerPlayEndedNotification_def
      Math_floor_def PLAY_GAIN_RATE_def)

lemma calculateElapsedTime_invariant:
  "balanceInvariant p \<Longrightarrow> balanceInvariant (calculateElapsedTime now p)"
  by (auto simp add: balanceInvariant_def calculateElapsedTime_def Let_def
      triggerPlayEndedNotification_def PLAY_GAIN_RATE_def not_le)

lemma tick_invariant: "balanceInvariant p \<Longrightarrow> balanceInvariant (tick currentTime p)"
  by (auto simp add: balanceInvariant_def tick_def Let_def triggerPlayEndedNotification_def
      PLAY_GAIN_RATE_def)

lemma applyPenalty_invariant: "balanceInvariant p \<Longrightarrow> balanceInvariant (applyPenalty p)"
  by (simp add: balanceInvariant_def applyPenalty_def setState_def Let_def)

lemma sum_list_minutes_nonneg:
  "\<forall>item \<in> set xs. 0 \<le> minutes item \<Longrightarrow> 0 \<le> (\<Sum>item\<leftarrow>filter P xs. minutes item)"
  by (induction xs) simp_all

lemma useInventoryItems_invariant:
  "balanceInvariant p \<Longrightarrow> balanceInvariant (useInventoryItems ids p)"
  by (simp add: balanceInvariant_def useInventoryItems_state sum_list_minutes_nonneg)

lemma apply_operation_invariant:
  "balanceInvariant p \<Longrightarrow> balanceInvariant (apply_operation op p)"
  by (cases op)
    (simp_all add: catchUp_invariant calculateElapsedTime_invariant tick_invariant
      applyPenalty_invariant useInventoryItems_invariant)

lemma run_invariant: "balanceInvariant p \<Longrightarrow> balanceInvariant (run ops p)"
  by (induction ops arbitrary: p) (simp_all add: apply_operation_invariant)

text \<open>
  C1, as the code has it. Starting from a balance that is not negative and an inventory
  whose items all carry a non-negative number of minutes, the balance is not negative
  after any finite sequence of catch-ups, ticks, penalties and redemptions.
\<close>

theorem playBalance_never_negative:
  assumes "0 \<le> playBalanceSeconds (state p)"
    and "\<forall>item \<in> set (inventory (state p)). 0 \<le> minutes item"
  shows "0 \<le> playBalanceSeconds (state (run ops p))"
proof -
  from assms have "balanceInvariant p"
    by (simp add: balanceInvariant_def)
  then have "balanceInvariant (run ops p)"
    by (rule run_invariant)
  then show ?thesis
    by (simp add: balanceInvariant_def)
qed

theorem playBalance_never_negative_witness:
  "0 \<le> playBalanceSeconds (state (activeProvider
       ((snapshot PLAY 0 3 0)\<lparr>inventory := [item ''a'' 10]\<rparr>)))
   \<and> inventory (state (activeProvider
       ((snapshot PLAY 0 3 0)\<lparr>inventory := [item ''a'' 10]\<rparr>))) = [item ''a'' 10]
   \<and> 0 \<le> minutes (item ''a'' 10)
   \<and> 0 \<le> playBalanceSeconds (state (run
        [CatchUp 5000, ApplyPenalty, UseInventoryItems [''a''], Tick 6000, ApplyPenalty,
         CalculateElapsedTime 9000]
        (activeProvider ((snapshot PLAY 0 3 0)\<lparr>inventory := [item ''a'' 10]\<rparr>))))"
  using playBalance_never_negative [of
      "activeProvider ((snapshot PLAY 0 3 0)\<lparr>inventory := [item ''a'' 10]\<rparr>)"
      "[CatchUp 5000, ApplyPenalty, UseInventoryItems [''a''], Tick 6000, ApplyPenalty,
        CalculateElapsedTime 9000]"]
  by (simp add: activeProvider_def snapshot_def item_def)

text \<open>
  The hypothesis on the inventory is needed. \<open>addQuest\<close> accepts a reward of \<open>-5\<close>
  minutes, \<open>claimQuest\<close> banks it, and redeeming that item from a balance of 0 leaves a
  balance of \<open>-300\<close>.
\<close>

theorem playBalance_negative_counterexample:
  "playBalanceSeconds (state
      (claimQuest ''item-1'' 0
         \<lparr>quest_id = ''quest-1'', quest_title = ''Read a chapter'', rewardMinutes = - 5\<rparr>
         (addQuest ''quest-1'' ''Read a chapter'' (- 5)
            (activeProvider (snapshot NOTHING 0 0 0))))) = 0
   \<and> playBalanceSeconds (state (run [UseInventoryItems [''item-1'']]
      (claimQuest ''item-1'' 0
         \<lparr>quest_id = ''quest-1'', quest_title = ''Read a chapter'', rewardMinutes = - 5\<rparr>
         (addQuest ''quest-1'' ''Read a chapter'' (- 5)
            (activeProvider (snapshot NOTHING 0 0 0)))))) = - 300"
  by (simp add: activeProvider_def snapshot_def addQuest_def claimQuest_def
      useInventoryItems_def setState_def Let_def)

section \<open>Accrual in WORK mode\<close>

lemma Math_floor_half: "Math_floor (of_int n * PLAY_GAIN_RATE) = of_int (n div 2)"
proof -
  have "\<lfloor>(of_int n :: rat) / of_int 2\<rfloor> = n div 2"
    by (rule floor_divide_of_int_eq)
  then show ?thesis
    by (simp add: Math_floor_def PLAY_GAIN_RATE_def)
qed

lemma Math_floor_numeral_half [simp]:
  "Math_floor (numeral k * PLAY_GAIN_RATE) = of_int (numeral k div 2)"
  using Math_floor_half [of "numeral k"] by simp

lemma even_half: "even n \<Longrightarrow> (of_int (n div 2) :: rat) = of_int n * PLAY_GAIN_RATE"
  by (auto simp add: PLAY_GAIN_RATE_def elim!: evenE)

text \<open>
  C2, as the code has it. In WORK mode, with \<open>e\<close> the whole seconds elapsed:
  \<^item> the catch-up of the timer effect (provider hydrated, user signed in, initial load
    over) acts when \<open>e > 1\<close>: it adds \<open>e\<close> to \<open>workElapsedSeconds\<close>, sets
    \<open>lastTickTimestamp\<close> to the current time and leaves the mode \<open>WORK\<close>; when \<open>e\<close> is
    even it adds exactly \<open>e \<times> 0.5\<close> to the balance;
  \<^item> \<open>calculateElapsedTime\<close> acts when \<open>e > 0\<close>: it adds \<open>e\<close> to \<open>workElapsedSeconds\<close> and
    exactly \<open>e \<times> 0.5\<close> to the balance, sets \<open>lastTickTimestamp\<close> and changes nothing else.
  Ten seconds after a snapshot with work 0 and balance 0 both give work 10 and balance 5.
\<close>

theorem catchUp_work_accrual:
  "(isHydrated p \<and> user p \<noteq> None \<and> \<not> isInitialLoad p \<and> mode (state p) = WORK
      \<and> 1 < elapsedSeconds now (state p) \<longrightarrow>
      workElapsedSeconds (state (catchUp now p))
        = workElapsedSeconds (state p) + elapsedSeconds now (state p)
      \<and> (even ((now - lastTickTimestamp (state p)) div 1000) \<longrightarrow>
           playBalanceSeconds (state (catchUp now p))
             = playBalanceSeconds (state p) + elapsedSeconds now (state p) * PLAY_GAIN_RATE)
      \<and> lastTickTimestamp (state (catchUp now p)) = now
      \<and> mode (state (catchUp now p)) = WORK)
   \<and> (mode (state p) = WORK \<and> 0 < elapsedSeconds now (state p) \<longrightarrow>
      state (calculateElapsedTime now p)
        = (state p)\<lparr>workElapsedSeconds :=
                      workElapsedSeconds (state p) + elapsedSeconds now (state p),
                    playBalanceSeconds :=
                      playBalanceSeconds (state p)
                      + elapsedSeconds now (state p) * PLAY_GAIN_RATE,
                    lastTickTimestamp := now\<rparr>)"
proof -
  have "Math_floor (elapsedSeconds now (state p) * PLAY_GAIN_RATE)
        = elapsedSeconds now (state p) * PLAY_GAIN_RATE"
    if "even ((now - lastTickTimestamp (state p)) div 1000)"
    using that by (simp add: elapsedSeconds_div Math_floor_half even_half)
  then show ?thesis
    by (simp add: catchUp_def calculateElapsedTime_def Let_def)
qed

theorem catchUp_work_accrual_witness:
  "mode (state (activeProvider (snapshot WORK 0 0 1700000000000))) = WORK
   \<and> 1 < elapsedSeconds 1700000010000 (state (activeProvider (snapshot WORK 0 0 1700000000000)))
   \<and> even ((1700000010000 - lastTickTimestamp
         (state (activeProvider (snapshot WORK 0 0 1700000000000)))) div 1000)
   \<and> catchUp 1700000010000 (activeProvider (snapshot WORK 0 0 1700000000000))
       = activeProvider (snapshot WORK 10 5 1700000010000)
   \<and> calculateElapsedTime 1700000010000 (activeProvider (snapshot WORK 0 0 1700000000000))
       = activeProvider (snapshot WORK 10 5 1700000010000)"
  using catchUp_work_accrual [of "activeProvider (snapshot WORK 0 0 1700000000000)" 1700000010000]
  by (simp add: elapsedSeconds_div activeProvider_def snapshot_def catchUp_def
      calculateElapsedTime_def Let_def Math_floor_def PLAY_GAIN_RATE_def)

text \<open>
  The catch-up of the timer effect does not do this for every \<open>e > 0\<close>. One second after
  the last tick it changes nothing (the gap is left to the interval); three seconds after,
  it adds 1 to the balance where \<open>e \<times> 0.5\<close> is \<open>3/2\<close>.
\<close>

theorem catchUp_work_accrual_counterexample:
  "mode (state (activeProvider (snapshot WORK 0 0 0))) = WORK
   \<and> elapsedSeconds 1000 (state (activeProvider (snapshot WORK 0 0 0))) = 1
   \<and> catchUp 1000 (activeProvider (snapshot WORK 0 0 0)) = activeProvider (snapshot WORK 0 0 0)
   \<and> elapsedSeconds 3000 (state (activeProvider (snapshot WORK 0 0 0))) = 3
   \<and> catchUp 3000 (activeProvider (snapshot WORK 0 0 0))
       = activeProvider (snapshot WORK 3 1 3000)"
  by (simp add: elapsedSeconds_div activeProvider_def snapshot_def catchUp_def Let_def)

text \<open>
  The two other paths keep the half second of an odd gap: three ticks, and
  \<open>calculateElapsedTime\<close> over three seconds, both give a balance of \<open>3/2\<close>.
\<close>

lemma odd_gap_without_truncation:
  "run [Tick 1000, Tick 2000, Tick 3000] (activeProvider (snapshot WORK 0 0 0))
       = activeProvider (snapshot WORK 3 (3 / 2) 3000)
   \<and> calculateElapsedTime 3000 (activeProvider (snapshot WORK 0 0 0))
       = activeProvider (snapshot WORK 3 (3 / 2) 3000)"
  by (simp add: elapsedSeconds_div activeProvider_def snapshot_def tick_def
      calculateElapsedTime_def Let_def PLAY_GAIN_RATE_def)

section \<open>Decay in PLAY mode\<close>

text \<open>
  C3, as the code has it. In PLAY mode, with the provider hydrated, a user signed in and
  the initial load over, a catch-up after more than one whole second (\<open>e > 1\<close>) sets the
  balance to \<open>max 0 (balance - e)\<close>. If that is 0, the same update sets the mode to
  \<open>NOTHING\<close> and raises the play-ended notification; otherwise the mode stays \<open>PLAY\<close> and
  the notification flag is untouched. A balance of 3 caught up 5000 ms later becomes 0
  with mode \<open>NOTHING\<close> and the notification raised.
\<close>

theorem catchUp_play_decay:
  assumes "isHydrated p" and "user p \<noteq> None" and "\<not> isInitialLoad p"
    and "mode (state p) = PLAY" and "1 < elapsedSeconds now (state p)"
  shows "playBalanceSeconds (state (catchUp now p))
           = max 0 (playBalanceSeconds (state p) - elapsedSeconds now (state p))
         \<and> (playBalanceSeconds (state (catchUp now p)) = 0 \<longrightarrow>
              mode (state (catchUp now p)) = NOTHING
              \<and> showPlayEndedNotification (catchUp now p))
         \<and> (playBalanceSeconds (state (catchUp now p)) \<noteq> 0 \<longrightarrow>
              mode (state (catchUp now p)) = PLAY
              \<and> showPlayEndedNotification (catchUp now p) = showPlayEndedNotification p)
         \<and> workElapsedSeconds (state (catchUp now p)) = workElapsedSeconds (state p)
         \<and> lastTickTimestamp (state (catchUp now p)) = now"
  using assms
  by (auto simp add: catchUp_def Let_def triggerPlayEndedNotification_def)

theorem catchUp_play_decay_witness:
  "isHydrated (activeProvider (snapshot PLAY 0 3 1700000000000))
   \<and> user (activeProvider (snapshot PLAY 0 3 1700000000000)) \<noteq> None
   \<and> \<not> isInitialLoad (activeProvider (snapshot PLAY 0 3 1700000000000))
   \<and> mode (state (activeProvider (snapshot PLAY 0 3 1700000000000))) = PLAY
   \<and> 1 < elapsedSeconds 1700000005000 (state (activeProvider (snapshot PLAY 0 3 1700000000000)))
   \<and> catchUp 1700000005000 (activeProvider (snapshot PLAY 0 3 1700000000000))
       = (activeProvider (snapshot NOTHING 0 0 1700000005000))
           \<lparr>showPlayEndedNotification := True\<rparr>"
  using catchUp_play_decay [of "activeProvider (snapshot PLAY 0 3 1700000000000)" 1700000005000]
  by (simp add: elapsedSeconds_div activeProvider_def snapshot_def catchUp_def Let_def
      triggerPlayEndedNotification_def)

text \<open>
  With exactly one whole second elapsed the catch-up leaves the gap to the interval: a
  PLAY snapshot with a balance of 1 keeps its balance and its mode, and no notification
  is raised, although \<open>max 0 (balance - e)\<close> is 0.
\<close>

theorem catchUp_play_decay_counterexample:
  "mode (state (activeProvider (snapshot PLAY 0 1 0))) = PLAY
   \<and> elapsedSeconds 1000 (state (activeProvider (snapshot PLAY 0 1 0))) = 1
   \<and> max 0 (playBalanceSeconds (state (activeProvider (snapshot PLAY 0 1 0)))
            - elapsedSeconds 1000 (state (activeProvider (snapshot PLAY 0 1 0)))) = 0
   \<and> playBalanceSeconds (state (catchUp 1000 (activeProvider (snapshot PLAY 0 1 0)))) = 1
   \<and> mode (state (catchUp 1000 (activeProvider (snapshot PLAY 0 1 0)))) = PLAY
   \<and> \<not> showPlayEndedNotification (catchUp 1000 (activeProvider (snapshot PLAY 0 1 0)))"
  by (simp add: elapsedSeconds_div activeProvider_def snapshot_def catchUp_def)

text \<open>The interval's callback applies the same rule with one second.\<close>

lemma tick_play_decay:
  "isHydrated p \<Longrightarrow> user p \<noteq> None \<Longrightarrow> mode (state p) = PLAY \<Longrightarrow>
   playBalanceSeconds (state (tick currentTime p)) = max 0 (playBalanceSeconds (state p) - 1)
   \<and> (playBalanceSeconds (state (tick currentTime p)) = 0 \<longrightarrow>
        mode (state (tick currentTime p)) = NOTHING
        \<and> showPlayEndedNotification (tick currentTime p))"
  by (auto simp add: tick_def Let_def triggerPlayEndedNotification_def)

section \<open>Additivity of the catch-up\<close>

lemma catchUp_active:
  "isHydrated p \<Longrightarrow> user p \<noteq> None \<Longrightarrow> \<not> isInitialLoad p \<Longrightarrow>
   1 < elapsedSeconds now (state p) \<Longrightarrow>
   catchUp now p =
     (let prev = state p;
          e = elapsedSeconds now (state p);
          newPlayBalance =
            (if mode prev = WORK then playBalanceSeconds prev + Math_floor (e * PLAY_GAIN_RATE)
             else if mode prev = PLAY then max 0 (playBalanceSeconds prev - e)
             else playBalanceSeconds prev);
          ended = (mode prev = PLAY \<and> newPlayBalance = 0)
      in p\<lparr>state := prev\<lparr>workElapsedSeconds :=
                             (if mode prev = WORK then workElapsedSeconds prev + e
                              else workElapsedSeconds prev),
                           playBalanceSeconds := newPlayBalance,
                           mode := (if ended then NOTHING else mode prev),
                           lastTickTimestamp := now\<rparr>,
           showPlayEndedNotification := (ended \<or> showPlayEndedNotification p)\<rparr>)"
  by (auto simp add: catchUp_def Let_def triggerPlayEndedNotification_def)

lemma catchUp_inactive:
  "\<not> isHydrated p \<or> user p = None \<or> isInitialLoad p \<Longrightarrow> catchUp now p = p"
  by (auto simp add: catchUp_def)

lemma div2_add: "even (a::int) \<or> even b \<Longrightarrow> (a + b) div 2 = a div 2 + b div 2"
  by (auto elim!: evenE)

text \<open>Whole seconds add up when the two sub-second remainders do not carry.\<close>

lemma div_1000_no_carry:
  fixes a b :: int
  assumes "a mod 1000 + b mod 1000 < 1000"
  shows "(a + b) div 1000 = a div 1000 + b div 1000"
proof -
  have "a + b = (a mod 1000 + b mod 1000) + (a div 1000 + b div 1000) * 1000"
    by (simp add: algebra_simps)
  then have "(a + b) div 1000
             = ((a mod 1000 + b mod 1000) + (a div 1000 + b div 1000) * 1000) div 1000"
    by (rule arg_cong)
  also have "\<dots> = (a div 1000 + b div 1000) + (a mod 1000 + b mod 1000) div 1000"
    by (rule div_mult_self1) simp
  also have "(a mod 1000 + b mod 1000) div 1000 = 0"
    using assms by (intro div_pos_pos_trivial) simp_all
  finally show ?thesis
    by simp
qed

text \<open>
  C5, as the code has it. Let \<open>t0\<close> be the snapshot's \<open>lastTickTimestamp\<close>. If the
  sub-second remainders of the two gaps \<open>t1 - t0\<close> and \<open>t2 - t1\<close> do not add up to a
  whole second, the second gap holds more than one whole second, the mode is the same
  after the catch-up at \<open>t1\<close>, and in WORK mode one of the two gaps holds an even number
  of whole seconds, then catching up at \<open>t1\<close> and again at \<open>t2\<close> gives, in every field,
  what catching up at \<open>t2\<close> alone gives.
\<close>

theorem catchUp_additive_no_carry:
  assumes t0: "lastTickTimestamp (state p) = t0"
    and no_carry: "(t1 - t0) mod 1000 + (t2 - t1) mod 1000 < 1000"
    and gap2: "1 < (t2 - t1) div 1000"
    and held: "mode (state (catchUp t1 p)) = mode (state p)"
    and parity: "mode (state p) = WORK \<longrightarrow>
                   even ((t1 - t0) div 1000) \<or> even ((t2 - t1) div 1000)"
  shows "catchUp t2 (catchUp t1 p) = catchUp t2 p"
proof (cases "isHydrated p \<and> user p \<noteq> None \<and> \<not> isInitialLoad p
    \<and> 1 < elapsedSeconds t1 (state p)")
  case False
  then have "catchUp t1 p = p"
    by (auto simp add: catchUp_inactive catchUp_fixed not_less)
  then show ?thesis
    by simp
next
  case True
  then have active: "isHydrated p" "user p \<noteq> None" "\<not> isInitialLoad p"
    and big1: "1 < elapsedSeconds t1 (state p)"
    by simp_all
  define e1 where "e1 = (t1 - t0) div 1000"
  define e2 where "e2 = (t2 - t1) div 1000"
  have sum: "(t1 - t0) + (t2 - t1) = t2 - t0"
    by simp
  from no_carry
  have "((t1 - t0) + (t2 - t1)) div 1000 = (t1 - t0) div 1000 + (t2 - t1) div 1000"
    by (rule div_1000_no_carry)
  then have "(t2 - t0) div 1000 = (t1 - t0) div 1000 + (t2 - t1) div 1000"
    by (simp only: sum)
  then have e12: "elapsedSeconds t2 (state p) = of_int (e1 + e2)"
    by (simp add: elapsedSeconds_div t0 e1_def e2_def)
  have e1: "elapsedSeconds t1 (state p) = of_int e1"
    by (simp add: elapsedSeconds_div t0 e1_def)
  from big1 have gap1: "1 < e1"
    by (simp add: e1)
  have big12: "1 < elapsedSeconds t2 (state p)"
    using gap1 gap2 by (simp add: e12 e2_def)
  note first = catchUp_active [OF active big1]
  have last1: "lastTickTimestamp (state (catchUp t1 p)) = t1"
    by (simp add: first Let_def)
  have e2: "elapsedSeconds t2 (state (catchUp t1 p)) = of_int e2"
    by (simp add: elapsedSeconds_div last1 e2_def)
  have big2: "1 < elapsedSeconds t2 (state (catchUp t1 p))"
    using gap2 by (simp add: e2 e2_def)
  have active1: "isHydrated (catchUp t1 p)" "user (catchUp t1 p) \<noteq> None"
    "\<not> isInitialLoad (catchUp t1 p)"
    using active by (simp_all add: first Let_def)
  note second = catchUp_active [OF active1 big2]
  note direct = catchUp_active [OF active big12]
  show ?thesis
  proof (cases "mode (state p)")
    case WORK
    with parity have "(e1 + e2) div 2 = e1 div 2 + e2 div 2"
      by (simp add: div2_add e1_def e2_def)
    moreover have "Math_floor ((of_int e1 + of_int e2) * PLAY_GAIN_RATE)
                   = of_int ((e1 + e2) div 2)"
      using Math_floor_half [of "e1 + e2"] by simp
    ultimately show ?thesis
      unfolding second direct e2 e12
      by (simp add: first e1 WORK Let_def Math_floor_half)
  next
    case PLAY
    with held have "max 0 (playBalanceSeconds (state p) - of_int e1) \<noteq> 0"
      by (auto simp add: first e1 Let_def split: if_splits)
    then show ?thesis
      unfolding second direct e2 e12
      by (auto simp add: first e1 PLAY Let_def max_def)
  next
    case NOTHING
    then show ?thesis
      unfolding second direct e2 e12
      by (simp add: first e1 Let_def)
  qed
qed

theorem catchUp_additive_no_carry_witness:
  "lastTickTimestamp (state (activeProvider (snapshot WORK 0 0 0))) = 0
   \<and> mode (state (catchUp 2100 (activeProvider (snapshot WORK 0 0 0))))
       = mode (state (activeProvider (snapshot WORK 0 0 0)))
   \<and> catchUp 4200 (catchUp 2100 (activeProvider (snapshot WORK 0 0 0)))
       = catchUp 4200 (activeProvider (snapshot WORK 0 0 0))
   \<and> catchUp 4200 (activeProvider (snapshot WORK 0 0 0))
       = activeProvider (snapshot WORK 4 2 4200)
   \<and> mode (state (catchUp 4300 (activeProvider (snapshot PLAY 0 10 1000))))
       = mode (state (activeProvider (snapshot PLAY 0 10 1000)))
   \<and> catchUp 7500 (catchUp 4300 (activeProvider (snapshot PLAY 0 10 1000)))
       = activeProvider (snapshot PLAY 0 4 7500)
   \<and> catchUp 7500 (activeProvider (snapshot PLAY 0 10 1000))
       = activeProvider (snapshot PLAY 0 4 7500)
   \<and> catchUp 3900 (catchUp 1900 (activeProvider (snapshot WORK 0 0 0)))
       = catchUp 3900 (activeProvider (snapshot WORK 0 0 0))
   \<and> catchUp 3900 (activeProvider (snapshot WORK 0 0 0))
       = activeProvider (snapshot WORK 3 1 3900)"
  using catchUp_additive_no_carry [of "activeProvider (snapshot WORK 0 0 0)" 0 2100 4200]
    catchUp_additive_no_carry [of "activeProvider (snapshot PLAY 0 10 1000)" 1000 4300 7500]
    catchUp_additive_no_carry [of "activeProvider (snapshot WORK 0 0 0)" 0 1900 3900]
  by (simp add: elapsedSeconds_div activeProvider_def snapshot_def catchUp_def Let_def)

text \<open>
  Without these conditions the two differ; the mode is WORK throughout. When the
  remainders carry: from a snapshot last ticked at 0, catching up at 2500 and at 5000
  counts 2 + 2 seconds of work, catching up at 5000 alone counts 5. When the second gap is
  a single second: after a catch-up at 2000 the one at 3000 changes nothing, so 2 seconds
  of work are counted and \<open>lastTickTimestamp\<close> stays 2000, where catching up at 3000
  alone counts 3 seconds and sets it to 3000.
\<close>

theorem catchUp_additive_counterexample:
  "lastTickTimestamp (state (activeProvider (snapshot WORK 0 0 0))) = 0
   \<and> mode (state (catchUp 2500 (activeProvider (snapshot WORK 0 0 0)))) = WORK
   \<and> mode (state (catchUp 5000 (catchUp 2500 (activeProvider (snapshot WORK 0 0 0))))) = WORK
   \<and> mode (state (catchUp 5000 (activeProvider (snapshot WORK 0 0 0)))) = WORK
   \<and> workElapsedSeconds (state (catchUp 5000 (catchUp 2500
        (activeProvider (snapshot WORK 0 0 0))))) = 4
   \<and> workElapsedSeconds (state (catchUp 5000 (activeProvider (snapshot WORK 0 0 0)))) = 5
   \<and> catchUp 3000 (catchUp 2000 (activeProvider (snapshot WORK 0 0 0)))
       = activeProvider (snapshot WORK 2 1 2000)
   \<and> catchUp 3000 (activeProvider (snapshot WORK 0 0 0))
       = activeProvider (snapshot WORK 3 1 3000)"
  by (simp add: elapsedSeconds_div activeProvider_def snapshot_def catchUp_def Let_def)

section \<open>Adding a quest\<close>

text \<open>
  C9, as the code has it. \<open>addQuest\<close> checks nothing: for every title and every reward
  it appends one quest that carries them and changes nothing else. The check is in the
  caller: \<open>handleSubmit\<close> of the "new quest" page sets an error, calls nothing and leaves
  the provider unchanged when the trimmed title is empty or the parsed reward is \<open>NaN\<close>,
  zero or negative; otherwise it hands the trimmed title and the parsed integer to
  \<open>addQuest\<close>.
\<close>

theorem addQuest_unchecked_handleSubmit_checks:
  "addQuest uuid title reward p =
     p\<lparr>state := (state p)\<lparr>quests := quests (state p)
        @ [\<lparr>quest_id = uuid, quest_title = title, rewardMinutes = reward\<rparr>]\<rparr>\<rparr>
   \<and> (trim (form_title page) = []
        \<or> parseInt (form_rewardMinutes page) = None
        \<or> (\<exists>m. parseInt (form_rewardMinutes page) = Some m \<and> m \<le> 0) \<longrightarrow>
       (\<exists>e. handleSubmit trim parseInt uuid page p
              = (page\<lparr>form_error := Some e\<rparr>, p, False)))
   \<and> (trim (form_title page) \<noteq> [] \<and> parseInt (form_rewardMinutes page) = Some m
        \<and> 0 < m \<longrightarrow>
       handleSubmit trim parseInt uuid page p
         = (page\<lparr>form_error := None\<rparr>,
            addQuest uuid (trim (form_title page)) (of_int m) p, True))"
  by (auto simp add: addQuest_def setState_def handleSubmit_def Let_def split: option.splits)

theorem addQuest_unchecked_handleSubmit_checks_witness:
  "handleSubmit (\<lambda>s. s) (\<lambda>s. if s = ''-5'' then Some (- 5) else None) ''quest-1''
        \<lparr>form_title = ''Read a chapter'', form_rewardMinutes = ''-5'', form_error = None\<rparr>
        (activeProvider (snapshot NOTHING 0 0 0))
     = (\<lparr>form_title = ''Read a chapter'', form_rewardMinutes = ''-5'',
         form_error = Some InvalidMinutes\<rparr>,
        activeProvider (snapshot NOTHING 0 0 0), False)
   \<and> handleSubmit (\<lambda>s. s) (\<lambda>s. if s = ''30'' then Some 30 else None) ''quest-1''
        \<lparr>form_title = ''Read a chapter'', form_rewardMinutes = ''30'', form_error = None\<rparr>
        (activeProvider (snapshot NOTHING 0 0 0))
     = (\<lparr>form_title = ''Read a chapter'', form_rewardMinutes = ''30'', form_error = None\<rparr>,
        activeProvider ((snapshot NOTHING 0 0 0)
          \<lparr>quests := [\<lparr>quest_id = ''quest-1'', quest_title = ''Read a chapter'',
                        rewardMinutes = 30\<rparr>]\<rparr>),
        True)"
  using addQuest_unchecked_handleSubmit_checks
      [where trim = "\<lambda>s. s" and parseInt = "\<lambda>s. if s = ''-5'' then Some (- 5) else None"
        and uuid = "''quest-1''" and p = "activeProvider (snapshot NOTHING 0 0 0)"
        and page = "\<lparr>form_title = ''Read a chapter'', form_rewardMinutes = ''-5'',
                     form_error = None\<rparr>"]
    addQuest_unchecked_handleSubmit_checks
      [where trim = "\<lambda>s. s" and parseInt = "\<lambda>s. if s = ''30'' then Some 30 else None"
        and uuid = "''quest-1''" and p = "activeProvider (snapshot NOTHING 0 0 0)"
        and page = "\<lparr>form_title = ''Read a chapter'', form_rewardMinutes = ''30'',
                     form_error = None\<rparr>"
        and m = 30]
  by (simp add: activeProvider_def snapshot_def handleSubmit_def addQuest_def setState_def
      Let_def)

text \<open>
  Called directly, \<open>addQuest\<close> appends a quest with a negative, a zero and a fractional
  reward alike.
\<close>

theorem addQuest_rejects_nothing_counterexample:
  "quests (state (activeProvider (snapshot NOTHING 0 0 0))) = []
   \<and> quests (state (addQuest ''quest-1'' ''Read a chapter'' (- 5)
        (activeProvider (snapshot NOTHING 0 0 0))))
       = [\<lparr>quest_id = ''quest-1'', quest_title = ''Read a chapter'', rewardMinutes = - 5\<rparr>]
   \<and> quests (state (addQuest ''quest-1'' ''Read a chapter'' 0
        (activeProvider (snapshot NOTHING 0 0 0))))
       = [\<lparr>quest_id = ''quest-1'', quest_title = ''Read a chapter'', rewardMinutes = 0\<rparr>]
   \<and> quests (state (addQuest ''quest-1'' ''Read a chapter'' (5 / 2)
        (activeProvider (snapshot NOTHING 0 0 0))))
       = [\<lparr>quest_id = ''quest-1'', quest_title = ''Read a chapter'', rewardMinutes = 5 / 2\<rparr>]"
  by (simp add: activeProvider_def snapshot_def addQuest_def setState_def)

end
